theory Spec2Isabelle
  imports Complex_Main
begin

section \<open>Python values, errors and text helpers\<close>

text \<open>
  The pipeline handles JSON rows coming back from the database and free text coming back
  from the model service. A value is one of the JSON scalars. A float is carried by its
  printed form, which is all the pipeline ever observes of one.
\<close>

datatype pyval = PNone | PBool bool | PInt int | PStr string | PFloat string

datatype py_error =
    ValueError | KeyError | IndexError | AttributeError | TypeError
  | InvalidToken | ImageError | RemoteError | DatabaseError | TransportError

type_synonym bytes = string

text \<open>Truthiness as \<^verbatim>\<open>if x:\<close> tests it.\<close>

fun truthy :: "pyval \<Rightarrow> bool" where
  "truthy PNone = False"
| "truthy (PBool b) = b"
| "truthy (PInt i) = (i \<noteq> 0)"
| "truthy (PStr s) = (s \<noteq> [])"
| "truthy (PFloat r) = (r \<noteq> ''0.0'' \<and> r \<noteq> ''-0.0'')"

definition is_digit :: "char \<Rightarrow> bool" where
  "is_digit c = (c \<in> set ''0123456789'')"

definition digit_val :: "char \<Rightarrow> nat" where
  "digit_val c = of_char c - 48"

text \<open>\<^verbatim>\<open>int(s)\<close> on a run of decimal digits: Python integers are unbounded.\<close>

definition int_of_digits :: "string \<Rightarrow> int" where
  "int_of_digits ds = int (foldl (\<lambda>n c. 10 * n + digit_val c) 0 ds)"

text \<open>The characters \<^verbatim>\<open>str.strip()\<close> removes (ASCII text).\<close>

definition is_space :: "char \<Rightarrow> bool" where
  "is_space c = (c \<in> set [CHR 0x09, CHR 0x0A, CHR 0x0B, CHR 0x0C, CHR 0x0D,
                           CHR 0x1C, CHR 0x1D, CHR 0x1E, CHR 0x1F, CHR 0x20])"

definition py_strip :: "string \<Rightarrow> string" where
  "py_strip s = rev (dropWhile is_space (rev (dropWhile is_space s)))"

text \<open>
  \<^verbatim>\<open>re.search(r'\d+', text)\<close>: the leftmost position where a digit stands, and
  from there the longest run of digits (the quantifier is greedy).
\<close>

fun re_search_digits :: "string \<Rightarrow> string option" where
  "re_search_digits [] = None"
| "re_search_digits (c # cs) =
     (if is_digit c then Some (takeWhile is_digit (c # cs)) else re_search_digits cs)"

section \<open>The AI engine (app/ai\_engine.py)\<close>

text \<open>
  The remote collaborators are oracles: each call either raises or returns a value.
  \<open>image_open\<close> tells whether PIL can open the bytes.
\<close>

record ai_service =
  image_open :: "bytes \<Rightarrow> bool"
  gemini_describe :: "bytes \<Rightarrow> py_error + string"
  gemini_embed :: "string \<Rightarrow> py_error + real list"
  gemini_compare :: "bytes \<Rightarrow> bytes \<Rightarrow> py_error + string"

record descriptor =
  siglip_embedding :: "real list"
  dino_embedding :: "real list"
  description :: "string option"

text \<open>The body of the \<^verbatim>\<open>try\<close> block of \<^verbatim>\<open>process_image\<close>.\<close>

definition process_image_try :: "ai_service \<Rightarrow> bytes \<Rightarrow> py_error + descriptor" where
  "process_image_try ai image_bytes =
     (if \<not> image_open ai image_bytes then Inl ImageError
      else case gemini_describe ai image_bytes of
             Inl e \<Rightarrow> Inl e
           | Inr descr \<Rightarrow>
               (case gemini_embed ai descr of
                  Inl e \<Rightarrow> Inl e
                | Inr embedding \<Rightarrow>
                    Inr \<lparr>siglip_embedding = embedding, dino_embedding = embedding,
                         description = Some descr\<rparr>))"

definition process_image :: "ai_service \<Rightarrow> bytes \<Rightarrow> descriptor" where
  "process_image ai image_bytes =
     (case process_image_try ai image_bytes of
        Inr d \<Rightarrow> d
      | Inl e \<Rightarrow> \<lparr>siglip_embedding = replicate 768 0, dino_embedding = replicate 768 0,
                   description = None\<rparr>)"

text \<open>The body of the \<^verbatim>\<open>try\<close> block of \<^verbatim>\<open>verify_visual_match\<close>.\<close>

definition verify_visual_match_try :: "ai_service \<Rightarrow> bytes \<Rightarrow> bytes \<Rightarrow> py_error + int" where
  "verify_visual_match_try ai image1_bytes image2_bytes =
     (if \<not> image_open ai image1_bytes then Inl ImageError
      else if \<not> image_open ai image2_bytes then Inl ImageError
      else case gemini_compare ai image1_bytes image2_bytes of
             Inl e \<Rightarrow> Inl e
           | Inr response_text \<Rightarrow>
               (case re_search_digits (py_strip response_text) of
                  Some m \<Rightarrow> Inr (int_of_digits m)
                | None \<Rightarrow> Inr 0))"

definition verify_visual_match :: "ai_service \<Rightarrow> bytes \<Rightarrow> bytes \<Rightarrow> int" where
  "verify_visual_match ai image1_bytes image2_bytes =
     (case verify_visual_match_try ai image1_bytes image2_bytes of
        Inr score \<Rightarrow> score
      | Inl e \<Rightarrow> 0)"



section \<open>Text formatting (\<^verbatim>\<open>str()\<close>, \<^verbatim>\<open>int()\<close>, \<^verbatim>\<open>str.format\<close>)\<close>

function show_nat :: "nat \<Rightarrow> string" where
  "show_nat n =
     (if n < 10 then [''0123456789'' ! n]
      else show_nat (n div 10) @ [''0123456789'' ! (n mod 10)])"
  by pat_completeness auto
termination
  by (relation "measure id") auto

declare show_nat.simps [simp del]

definition show_int :: "int \<Rightarrow> string" where
  "show_int i = (if i < 0 then CHR ''-'' # show_nat (nat (- i)) else show_nat (nat i))"

text \<open>\<^verbatim>\<open>str(v)\<close>, which is also \<^verbatim>\<open>format(v, '')\<close> for these types.\<close>

fun py_str :: "pyval \<Rightarrow> string" where
  "py_str PNone = ''None''"
| "py_str (PBool b) = (if b then ''True'' else ''False'')"
| "py_str (PInt i) = show_int i"
| "py_str (PStr s) = s"
| "py_str (PFloat r) = r"

text \<open>
  \<^verbatim>\<open>int(s)\<close> on a string: surrounding whitespace is dropped, one sign is allowed,
  and the digits may be grouped by single underscores. Anything else is a ValueError,
  here \<open>None\<close>.
\<close>

fun grouped_digits :: "string \<Rightarrow> bool" where
  "grouped_digits [] = False"
| "grouped_digits [c] = is_digit c"
| "grouped_digits (c # d # cs) =
     (is_digit c \<and> (if d = CHR ''_'' then grouped_digits cs else grouped_digits (d # cs)))"

definition py_int :: "string \<Rightarrow> int option" where
  "py_int s =
     (let t = py_strip s;
          neg = (t \<noteq> [] \<and> hd t = CHR ''-'');
          body = (if t \<noteq> [] \<and> (hd t = CHR ''-'' \<or> hd t = CHR ''+'') then tl t else t)
      in if grouped_digits body
         then Some ((if neg then - 1 else 1) * int_of_digits (filter (\<lambda>c. c \<noteq> CHR ''_'') body))
         else None)"

text \<open>
  \<^verbatim>\<open>str.format\<close> scans the template once, from the left. Text is copied, \<^verbatim>\<open>{{\<close>
  and \<^verbatim>\<open>}}\<close> stand for one brace, and \<^verbatim>\<open>{field!c:spec}\<close> is a replacement field.
  The scanner is a state machine over the characters; it ends with \<open>Bad\<close> at the first
  syntax error. Inside a field name, everything between \<^verbatim>\<open>[\<close> and the next
  \<^verbatim>\<open>]\<close> belongs to the name; inside a format spec, braces nest.
\<close>

datatype token = Lit char | Field string "char option" string | Bad py_error

datatype scan_mode =
    InText
  | InName string
  | InIndex string
  | InConv string
  | AfterConv string char
  | InSpec string "char option" string nat

fun scan :: "scan_mode \<Rightarrow> string \<Rightarrow> token list" where
  "scan InText [] = []"
| "scan InText [c] = (if c = CHR ''{'' \<or> c = CHR ''}'' then [Bad ValueError] else [Lit c])"
| "scan InText (c # d # cs) =
     (if c = CHR ''{''
      then (if d = CHR ''{'' then Lit c # scan InText cs else scan (InName []) (d # cs))
      else if c = CHR ''}''
      then (if d = CHR ''}'' then Lit c # scan InText cs else [Bad ValueError])
      else Lit c # scan InText (d # cs))"
| "scan (InName n) [] = [Bad ValueError]"
| "scan (InName n) (c # cs) =
     (if c = CHR ''{'' then [Bad ValueError]
      else if c = CHR ''['' then scan (InIndex (n @ [c])) cs
      else if c = CHR ''}'' then Field n None [] # scan InText cs
      else if c = CHR '':'' then scan (InSpec n None [] 1) cs
      else if c = CHR ''!'' then scan (InConv n) cs
      else scan (InName (n @ [c])) cs)"
| "scan (InIndex n) [] = [Bad ValueError]"
| "scan (InIndex n) (c # cs) =
     (if c = CHR '']'' then scan (InName (n @ [c])) cs else scan (InIndex (n @ [c])) cs)"
| "scan (InConv n) [] = [Bad ValueError]"
| "scan (InConv n) (c # cs) = scan (AfterConv n c) cs"
| "scan (AfterConv n v) [] = [Bad ValueError]"
| "scan (AfterConv n v) (c # cs) =
     (if c = CHR ''}'' then Field n (Some v) [] # scan InText cs
      else if c = CHR '':'' then scan (InSpec n (Some v) [] 1) cs
      else [Bad ValueError])"
| "scan (InSpec n v sp k) [] = [Bad ValueError]"
| "scan (InSpec n v sp k) (c # cs) =
     (if c = CHR ''{'' then scan (InSpec n v (sp @ [c]) (Suc k)) cs
      else if c = CHR ''}''
      then (if k = 1 then Field n v sp # scan InText cs
            else scan (InSpec n v (sp @ [c]) (k - 1)) cs)
      else scan (InSpec n v (sp @ [c]) k) cs)"

text \<open>
  The first part of a field name, up to the first \<^verbatim>\<open>.\<close> or \<^verbatim>\<open>[\<close>, names the
  argument; the rest is a chain of attribute and index lookups on it.
\<close>

definition arg_name :: "string \<Rightarrow> string" where
  "arg_name n = takeWhile (\<lambda>c. c \<noteq> CHR ''.'' \<and> c \<noteq> CHR ''['') n"

definition accessors :: "string \<Rightarrow> string" where
  "accessors n = dropWhile (\<lambda>c. c \<noteq> CHR ''.'' \<and> c \<noteq> CHR ''['') n"

text \<open>
  The call passes keyword arguments only. An empty or numeric argument name indexes the
  positional arguments, of which there are none; any other name is looked up among the
  keywords.
\<close>

definition get_field :: "(string \<rightharpoonup> pyval) \<Rightarrow> string \<Rightarrow> py_error + pyval" where
  "get_field kwargs n =
     (let a = arg_name n
      in if a = [] \<or> (\<forall>c\<in>set a. is_digit c) then Inl IndexError
         else case kwargs a of None \<Rightarrow> Inl KeyError | Some v \<Rightarrow> Inr v)"

text \<open>
  A plain field \<^verbatim>\<open>{name}\<close> prints the value as \<^verbatim>\<open>str\<close> does. What a lookup
  chain, a conversion or a format spec makes of a value is the business of the value's
  type in the Python library; it is the parameter \<open>rich\<close>, which may raise.
\<close>

type_synonym rich_format = "pyval \<Rightarrow> string \<Rightarrow> char option \<Rightarrow> string \<Rightarrow> py_error + string"

fun render :: "rich_format \<Rightarrow> (string \<rightharpoonup> pyval) \<Rightarrow> token list \<Rightarrow> py_error + string" where
  "render rich kwargs [] = Inr []"
| "render rich kwargs (Lit c # ts) =
     (case render rich kwargs ts of Inl e \<Rightarrow> Inl e | Inr r \<Rightarrow> Inr (c # r))"
| "render rich kwargs (Field n conv sp # ts) =
     (case get_field kwargs n of
        Inl e \<Rightarrow> Inl e
      | Inr v \<Rightarrow>
          (case (if accessors n = [] \<and> conv = None \<and> sp = [] then Inr (py_str v)
                 else rich v (accessors n) conv sp) of
             Inl e \<Rightarrow> Inl e
           | Inr s \<Rightarrow>
               (case render rich kwargs ts of Inl e \<Rightarrow> Inl e | Inr r \<Rightarrow> Inr (s @ r))))"
| "render rich kwargs (Bad e # ts) = Inl e"

definition str_format :: "rich_format \<Rightarrow> string \<Rightarrow> (string \<rightharpoonup> pyval) \<Rightarrow> py_error + string" where
  "str_format rich template kwargs = render rich kwargs (scan InText template)"

text \<open>\<^verbatim>\<open>template.format(...)\<close> on whatever the configuration holds: only a string has the method.\<close>

fun call_format :: "rich_format \<Rightarrow> pyval \<Rightarrow> (string \<rightharpoonup> pyval) \<Rightarrow> py_error + string" where
  "call_format rich (PStr template) kwargs = str_format rich template kwargs"
| "call_format rich v kwargs = Inl AttributeError"

section \<open>The webhook pipeline (app/main.py, app/security.py)\<close>

subsection \<open>Data\<close>

text \<open>
  A row of the \<^verbatim>\<open>shops\<close> table and a row returned by \<^verbatim>\<open>match_products\<close> are
  dictionaries. Each key the pipeline reads is a field; \<open>None\<close> means the key is
  missing, \<open>Some PNone\<close> that it holds a null.
\<close>

record shop_config =
  owner_id :: "pyval option"
  encrypted_access_token :: "pyval option"
  msg_found :: "pyval option"
  msg_not_found :: "pyval option"
  send_image :: "pyval option"

record candidate =
  name :: "pyval option"
  price :: "pyval option"
  image_url :: "pyval option"

record attachment =
  att_type :: "string option"
  att_url :: "string option"

record event =
  sender_id :: "string option"
  recipient_id :: "string option"
  attachments :: "attachment list option"

text \<open>\<^verbatim>\<open>d.get(key, default)\<close>\<close>

definition dict_get :: "pyval option \<Rightarrow> pyval \<Rightarrow> pyval" where
  "dict_get field dflt = (case field of None \<Rightarrow> dflt | Some v \<Rightarrow> v)"

subsection \<open>Collaborators and observable state\<close>

text \<open>
  An outbound POST is delivered, is answered with an error status (which
  \<^verbatim>\<open>raise_for_status\<close> turns into \<^verbatim>\<open>HTTPStatusError\<close>), or fails below HTTP
  (no connection, timeout), which the client raises as another exception class.
\<close>

datatype post_outcome = Delivered | StatusError | TransportFailure

record env =
  ai :: ai_service
  shops_select :: "string \<Rightarrow> py_error + shop_config option"
  users_select_raises :: "pyval \<Rightarrow> bool"
  users_update_raises :: "pyval \<Rightarrow> bool"
  fernet_decrypt :: "string \<Rightarrow> py_error + string"
  http_get :: "string \<Rightarrow> py_error + nat \<times> bytes"
  match_products :: "real list \<Rightarrow> real list \<Rightarrow> real \<Rightarrow> int \<Rightarrow> py_error + candidate list"
  http_post :: "nat \<Rightarrow> post_outcome"
  format_rich :: rich_format

datatype outmsg = TextMsg string pyval string | ImageMsg string pyval string

datatype credit_op = CreditsSelect pyval | CreditsUpdate pyval int

datatype ai_call = Extract bytes | Verify bytes bytes

text \<open>
  What a run can change or cause: the \<^verbatim>\<open>credits\<close> column of the \<^verbatim>\<open>users\<close> table,
  the queries issued on it, the calls into the AI engine, and the POSTs issued to the
  messaging platform, each with its outcome. The \<open>n\<close>-th POST of a run gets the
  outcome \<open>http_post env n\<close>.
\<close>

record world =
  users :: "pyval \<rightharpoonup> int"
  credit_log :: "credit_op list"
  ai_log :: "ai_call list"
  outbox :: "(outmsg \<times> post_outcome) list"

subsection \<open>Helper functions\<close>

text \<open>
  \<^verbatim>\<open>send_facebook_message\<close> and \<^verbatim>\<open>send_facebook_image\<close> have the same body around
  their payload: one POST, then \<^verbatim>\<open>raise_for_status\<close>, inside a \<^verbatim>\<open>try\<close> that
  catches \<^verbatim>\<open>HTTPStatusError\<close> and logs it. Any other exception of the client leaves
  the function.
\<close>

definition post :: "env \<Rightarrow> outmsg \<Rightarrow> world \<Rightarrow> (py_error + unit) \<times> world" where
  "post env m w =
     (let r = http_post env (length (outbox w));
          w' = w\<lparr>outbox := outbox w @ [(m, r)]\<rparr>
      in if r = TransportFailure then (Inl TransportError, w') else (Inr (), w'))"

definition send_facebook_message ::
  "env \<Rightarrow> string \<Rightarrow> pyval \<Rightarrow> string \<Rightarrow> world \<Rightarrow> (py_error + unit) \<times> world" where
  "send_facebook_message env recipient message_text page_access_token w =
     post env (TextMsg recipient message_text page_access_token) w"

definition send_facebook_image ::
  "env \<Rightarrow> string \<Rightarrow> pyval \<Rightarrow> string \<Rightarrow> world \<Rightarrow> (py_error + unit) \<times> world" where
  "send_facebook_image env recipient url page_access_token w =
     post env (ImageMsg recipient url page_access_token) w"

definition get_shop_config :: "env \<Rightarrow> string \<Rightarrow> shop_config option" where
  "get_shop_config env page_id =
     (case shops_select env page_id of Inl e \<Rightarrow> None | Inr row \<Rightarrow> row)"

definition decrypt_token :: "env \<Rightarrow> pyval \<Rightarrow> py_error + string" where
  "decrypt_token env token =
     (if \<not> truthy token then Inr []
      else case token of PStr s \<Rightarrow> fernet_decrypt env s | _ \<Rightarrow> Inl AttributeError)"

subsection \<open>\<^verbatim>\<open>handle_image_search\<close>\<close>

text \<open>The reply text: the template is formatted, and any exception falls back.\<close>

definition found_reply_text :: "env \<Rightarrow> shop_config \<Rightarrow> candidate \<Rightarrow> int \<Rightarrow> string" where
  "found_reply_text env shop_config top_match confidence_pct =
     (let msg_template =
            dict_get (msg_found shop_config)
              (PStr ''Found {name} for {price}. Confidence: {confidence}%'')
      in case call_format (format_rich env) msg_template
                [''name'' \<mapsto> dict_get (name top_match) (PStr ''Unknown''),
                 ''price'' \<mapsto> dict_get (price top_match) (PStr ''N/A''),
                 ''confidence'' \<mapsto> PInt confidence_pct] of
           Inr reply_text \<Rightarrow> reply_text
         | Inl e \<Rightarrow> ''Found '' @ py_str (dict_get (name top_match) PNone) @ ''.'')"

text \<open>From "Filter based on score" to the end of the match branch.\<close>

definition reply_stage ::
  "env \<Rightarrow> string \<Rightarrow> candidate \<Rightarrow> shop_config \<Rightarrow> string \<Rightarrow> int \<Rightarrow> world
   \<Rightarrow> (py_error + unit) \<times> world" where
  "reply_stage env user_id top_match shop_config token verification_score w =
     (if verification_score < 65
      then send_facebook_message env user_id
             (dict_get (msg_not_found shop_config)
                (PStr ''Sorry, we could not find a match for that item.'')) token w
      else
        case (if 65 \<le> verification_score \<and> verification_score < 85
              then send_facebook_message env user_id
                     (PStr ''We couldn't find an exact match, but this is the closest we found:'')
                     token w
              else (Inr (), w)) of
          (Inl e, w1) \<Rightarrow> (Inl e, w1)
        | (Inr u, w1) \<Rightarrow>
            (case send_facebook_message env user_id
                    (PStr (found_reply_text env shop_config top_match verification_score))
                    token w1 of
               (Inl e, w2) \<Rightarrow> (Inl e, w2)
             | (Inr u, w2) \<Rightarrow>
                 if truthy (dict_get (send_image shop_config) (PBool False))
                 then (case image_url top_match of
                         None \<Rightarrow> (Inl KeyError, w2)
                       | Some url \<Rightarrow> send_facebook_image env user_id url token w2)
                 else (Inr (), w2)))"

text \<open>
  The visual verification step. A candidate without \<^verbatim>\<open>image_url\<close> raises to the outer
  handler; a failed download is caught here and leaves the score at 0.
\<close>

definition verification_stage ::
  "env \<Rightarrow> bytes \<Rightarrow> candidate \<Rightarrow> world \<Rightarrow> (py_error + int) \<times> world" where
  "verification_stage env image_bytes top_match w =
     (case image_url top_match of
        None \<Rightarrow> (Inl KeyError, w)
      | Some (PStr candidate_url) \<Rightarrow>
          (case http_get env candidate_url of
             Inl e \<Rightarrow> (Inr 0, w)
           | Inr (status_code, candidate_bytes) \<Rightarrow>
               if status_code = 200
               then (Inr (verify_visual_match (ai env) image_bytes candidate_bytes),
                     w\<lparr>ai_log := ai_log w @ [Verify image_bytes candidate_bytes]\<rparr>)
               else (Inr 0, w))
      | Some other \<Rightarrow> (Inr 0, w))"

text \<open>The body of the \<^verbatim>\<open>try\<close> block.\<close>

definition handle_image_search_try ::
  "env \<Rightarrow> string \<Rightarrow> string \<Rightarrow> string \<Rightarrow> shop_config \<Rightarrow> string \<Rightarrow> world
   \<Rightarrow> (py_error + unit) \<times> world" where
  "handle_image_search_try env user_id url page_id shop_config token w =
     (case http_get env url of
        Inl e \<Rightarrow> (Inl e, w)
      | Inr (status_code, image_bytes) \<Rightarrow>
          if status_code \<noteq> 200
          then send_facebook_message env user_id (PStr ''Failed to download image.'') token w
          else
            let ai_result = process_image (ai env) image_bytes;
                w1 = w\<lparr>ai_log := ai_log w @ [Extract image_bytes]\<rparr>
            in case py_int page_id of
                 None \<Rightarrow> (Inl ValueError, w1)
               | Some filter_page_id \<Rightarrow>
                   (case match_products env (siglip_embedding ai_result)
                           (dino_embedding ai_result) (7 / 10) filter_page_id of
                      Inl e \<Rightarrow> (Inl e, w1)
                    | Inr [] \<Rightarrow>
                        send_facebook_message env user_id
                          (dict_get (msg_not_found shop_config) (PStr ''No match found.''))
                          token w1
                    | Inr (top_match # rest) \<Rightarrow>
                        (case verification_stage env image_bytes top_match w1 of
                           (Inl e, w2) \<Rightarrow> (Inl e, w2)
                         | (Inr verification_score, w2) \<Rightarrow>
                             reply_stage env user_id top_match shop_config token
                               verification_score w2)))"

definition handle_image_search ::
  "env \<Rightarrow> string \<Rightarrow> string \<Rightarrow> string \<Rightarrow> shop_config \<Rightarrow> string \<Rightarrow> world
   \<Rightarrow> (py_error + unit) \<times> world" where
  "handle_image_search env user_id url page_id shop_config token w =
     (case handle_image_search_try env user_id url page_id shop_config token w of
        (Inr u, w') \<Rightarrow> (Inr u, w')
      | (Inl e, w') \<Rightarrow>
          send_facebook_message env user_id
            (PStr ''An error occurred while processing your image.'') token w')"

subsection \<open>\<^verbatim>\<open>process_incoming_message\<close>\<close>

text \<open>
  The credit check: \<open>None\<close> when the function returns from inside the check, otherwise
  the value of the local variable \<^verbatim>\<open>credits\<close>.
\<close>

definition check_credits :: "env \<Rightarrow> pyval \<Rightarrow> world \<Rightarrow> int option \<times> world" where
  "check_credits env owner w =
     (if truthy owner
      then let w1 = w\<lparr>credit_log := credit_log w @ [CreditsSelect owner]\<rparr>
           in if users_select_raises env owner then (None, w1)
              else case users w owner of
                     None \<Rightarrow> (None, w1)
                   | Some credits \<Rightarrow> if credits \<le> 0 then (None, w1) else (Some credits, w1)
      else (Some 0, w))"

definition deduct_credit :: "env \<Rightarrow> pyval \<Rightarrow> int \<Rightarrow> world \<Rightarrow> world" where
  "deduct_credit env owner credits w =
     (if truthy owner
      then let w1 = w\<lparr>credit_log := credit_log w @ [CreditsUpdate owner (credits - 1)]\<rparr>
           in if users_update_raises env owner then w1
              else w1\<lparr>users := (users w1)(owner \<mapsto> credits - 1)\<rparr>
      else w)"

text \<open>\<^verbatim>\<open>decrypt_token(shop_config["encrypted_access_token"])\<close>\<close>

definition decrypt_stage :: "env \<Rightarrow> shop_config \<Rightarrow> py_error + string" where
  "decrypt_stage env shop_config =
     (case encrypted_access_token shop_config of
        None \<Rightarrow> Inl KeyError
      | Some t \<Rightarrow> decrypt_token env t)"

text \<open>The loop over the attachments, up to the first image.\<close>

fun first_image :: "attachment list \<Rightarrow> py_error + string option" where
  "first_image [] = Inr None"
| "first_image (a # rest) =
     (case att_type a of
        None \<Rightarrow> Inl KeyError
      | Some t \<Rightarrow>
          if t = ''image''
          then (case att_url a of None \<Rightarrow> Inl KeyError | Some url \<Rightarrow> Inr (Some url))
          else first_image rest)"

definition process_incoming_message :: "env \<Rightarrow> event \<Rightarrow> world \<Rightarrow> (py_error + unit) \<times> world" where
  "process_incoming_message env ev w =
     (case (sender_id ev, recipient_id ev) of
        (Some sender, Some recipient) \<Rightarrow>
          if sender = [] \<or> recipient = [] then (Inr (), w)
          else
            (case get_shop_config env recipient of
               None \<Rightarrow> (Inr (), w)
             | Some shop_config \<Rightarrow>
                 let owner = dict_get (owner_id shop_config) PNone
                 in case check_credits env owner w of
                      (None, w1) \<Rightarrow> (Inr (), w1)
                    | (Some credits, w1) \<Rightarrow>
                        (case decrypt_stage env shop_config of
                           Inl e \<Rightarrow> (Inr (), w1)
                         | Inr page_access_token \<Rightarrow>
                             (case attachments ev of
                                None \<Rightarrow> (Inr (), w1)
                              | Some atts \<Rightarrow>
                                  (case first_image atts of
                                     Inl e \<Rightarrow> (Inl e, w1)
                                   | Inr None \<Rightarrow> (Inr (), w1)
                                   | Inr (Some url) \<Rightarrow>
                                       handle_image_search env sender url recipient shop_config
                                         page_access_token
                                         (deduct_credit env owner credits w1)))))
      | _ \<Rightarrow> (Inr (), w))"

subsection \<open>Which placeholders a template references\<close>

text \<open>The argument names of the replacement fields the scanner finds in a template.\<close>

fun field_args :: "token list \<Rightarrow> string list" where
  "field_args [] = []"
| "field_args (Field n conv sp # ts) = arg_name n # field_args ts"
| "field_args (t # ts) = field_args ts"

definition template_refs :: "string \<Rightarrow> string list" where
  "template_refs template = field_args (scan InText template)"

text \<open>
  A template written the plain way: stretches of text without braces, and placeholders
  \<^verbatim>\<open>{name}\<close> between them.
\<close>

datatype piece = Text string | Placeholder string

fun piece_source :: "piece \<Rightarrow> string" where
  "piece_source (Text s) = s"
| "piece_source (Placeholder n) = CHR ''{'' # n @ ''}''"

fun piece_value :: "(string \<rightharpoonup> pyval) \<Rightarrow> piece \<Rightarrow> string" where
  "piece_value kwargs (Text s) = s"
| "piece_value kwargs (Placeholder n) = (case kwargs n of None \<Rightarrow> [] | Some v \<Rightarrow> py_str v)"

fun plain_piece :: "piece \<Rightarrow> bool" where
  "plain_piece (Text s) = (CHR ''{'' \<notin> set s \<and> CHR ''}'' \<notin> set s)"
| "plain_piece (Placeholder n) = (n \<in> {''name'', ''price'', ''confidence''})"

section \<open>Sample collaborators and inputs\<close>

definition sample_ai :: ai_service where
  "sample_ai =
     \<lparr>image_open = (\<lambda>b. True),
      gemini_describe = (\<lambda>b. Inr ''steel watch''),
      gemini_embed = (\<lambda>s. Inr [1, 0]),
      gemini_compare = (\<lambda>a b. Inr ''Score: 90'')\<rparr>"

definition sample_shop :: shop_config where
  "sample_shop =
     \<lparr>owner_id = Some (PStr ''u1''),
      encrypted_access_token = Some (PStr ''gA''),
      msg_found = Some (PStr ''{name}: {price}''),
      msg_not_found = Some (PStr ''Nothing''),
      send_image = Some (PBool True)\<rparr>"

definition sample_candidate :: candidate where
  "sample_candidate =
     \<lparr>name = Some (PStr ''Watch''), price = Some (PFloat ''19.5''),
      image_url = Some (PStr ''c.jpg'')\<rparr>"

definition sample_env :: env where
  "sample_env =
     \<lparr>ai = sample_ai,
      shops_select = (\<lambda>p. if p = ''77'' then Inr (Some sample_shop) else Inr None),
      users_select_raises = (\<lambda>owner. False),
      users_update_raises = (\<lambda>owner. False),
      fernet_decrypt = (\<lambda>s. if s = ''gA'' then Inr ''tok'' else Inl InvalidToken),
      http_get = (\<lambda>u. if u = ''q.jpg'' then Inr (200, ''Q'')
                       else if u = ''c.jpg'' then Inr (200, ''C'') else Inl TransportError),
      match_products = (\<lambda>a b t p. Inr [sample_candidate]),
      http_post = (\<lambda>n. Delivered),
      format_rich = (\<lambda>v a c s. Inl ValueError)\<rparr>"

definition sample_world :: world where
  "sample_world =
     \<lparr>users = [PStr ''u1'' \<mapsto> 5], credit_log = [], ai_log = [], outbox = []\<rparr>"

definition image_event :: event where
  "image_event =
     \<lparr>sender_id = Some ''s9'', recipient_id = Some ''77'',
      attachments = Some [\<lparr>att_type = Some ''image'', att_url = Some ''q.jpg''\<rparr>]\<rparr>"

definition text_event :: event where
  "text_event = \<lparr>sender_id = Some ''s9'', recipient_id = Some ''77'', attachments = None\<rparr>"

text \<open>Variations of the sample: one collaborator misbehaves in each.\<close>

definition failing_embed_ai :: ai_service where
  "failing_embed_ai = sample_ai\<lparr>gemini_embed := \<lambda>s. Inl RemoteError\<rparr>"

definition overshoot_ai :: ai_service where
  "overshoot_ai = sample_ai\<lparr>gemini_compare := \<lambda>a b. Inr ''150''\<rparr>"


definition timeout_env :: env where
  "timeout_env = sample_env\<lparr>http_post := \<lambda>n. if n = 1 then TransportFailure else Delivered\<rparr>"

definition stale_key_env :: env where
  "stale_key_env = sample_env\<lparr>fernet_decrypt := \<lambda>s. Inl InvalidToken\<rparr>"

definition rejected_env :: env where
  "rejected_env = sample_env\<lparr>http_post := \<lambda>n. if n = 1 then StatusError else Delivered\<rparr>"

definition empty_catalog_env :: env where
  "empty_catalog_env = sample_env\<lparr>match_products := \<lambda>a b t p. Inr []\<rparr>"

definition ownerless_shop :: shop_config where
  "ownerless_shop = sample_shop\<lparr>owner_id := None\<rparr>"

definition ownerless_env :: env where
  "ownerless_env =
     sample_env\<lparr>shops_select := \<lambda>p. if p = ''77'' then Inr (Some ownerless_shop) else Inr None\<rparr>"

definition typo_shop :: shop_config where
  "typo_shop = sample_shop\<lparr>msg_found := Some (PStr ''{name} ({sku})'')\<rparr>"

section \<open>The AI engine: verified properties\<close>









text \<open>
  C3. Whenever a step of descriptor extraction fails (the image does not open, the
  description call raises, or the embedding call raises), \<open>process_image\<close> still returns
  a descriptor: both embedding fields are the vector of 768 zeros, and there is no
  description.
\<close>

theorem process_image_degraded:
  assumes "\<not> image_open svc image_bytes
           \<or> (\<exists>e. gemini_describe svc image_bytes = Inl e)
           \<or> (\<exists>d e. gemini_describe svc image_bytes = Inr d \<and> gemini_embed svc d = Inl e)"
  shows "process_image svc image_bytes =
           \<lparr>siglip_embedding = replicate 768 0, dino_embedding = replicate 768 0,
            description = None\<rparr>
         \<and> length (siglip_embedding (process_image svc image_bytes)) = 768
         \<and> length (dino_embedding (process_image svc image_bytes)) = 768
         \<and> (\<forall>x\<in>set (siglip_embedding (process_image svc image_bytes)). x = 0)
         \<and> (\<forall>x\<in>set (dino_embedding (process_image svc image_bytes)). x = 0)"
  using assms
  by (auto simp: process_image_def process_image_try_def split: sum.splits)

theorem process_image_degraded_witness:
  "gemini_describe failing_embed_ai ''Q'' = Inr ''steel watch''
   \<and> gemini_embed failing_embed_ai ''steel watch'' = Inl RemoteError
   \<and> length (siglip_embedding (process_image failing_embed_ai ''Q'')) = 768
   \<and> description (process_image failing_embed_ai ''Q'') = None"
  using process_image_degraded [of failing_embed_ai "''Q''"]
  by (simp add: failing_embed_ai_def sample_ai_def)

text \<open>
  C4. The score is whatever number the response text starts its first digit run with;
  nothing clamps it to 100. On the response \<^verbatim>\<open>150\<close> the function returns 150.
\<close>

theorem verify_visual_match_above_100:
  "verify_visual_match overshoot_ai ''Q'' ''C'' = 150"
  by (simp add: verify_visual_match_def verify_visual_match_try_def overshoot_ai_def
      sample_ai_def py_strip_def is_space_def is_digit_def int_of_digits_def digit_val_def)



section \<open>The reply text: verified properties\<close>

lemma scan_text_char:
  "c \<noteq> CHR ''{'' \<Longrightarrow> c \<noteq> CHR ''}'' \<Longrightarrow> scan InText (c # cs) = Lit c # scan InText cs"
  by (cases cs) auto

lemma scan_text:
  "CHR ''{'' \<notin> set s \<Longrightarrow> CHR ''}'' \<notin> set s \<Longrightarrow>
     scan InText (s @ rest) = map Lit s @ scan InText rest"
  by (induction s) (auto simp: scan_text_char)

lemma scan_placeholder:
  "n \<in> {''name'', ''price'', ''confidence''} \<Longrightarrow>
     scan InText (CHR ''{'' # n @ CHR ''}'' # rest) = Field n None [] # scan InText rest"
  by auto

lemma render_text:
  "render rich kwargs (map Lit s @ ts) =
     (case render rich kwargs ts of Inl e \<Rightarrow> Inl e | Inr r \<Rightarrow> Inr (s @ r))"
  by (induction s) (auto split: sum.splits)

lemma get_field_known:
  "n \<in> {''name'', ''price'', ''confidence''} \<Longrightarrow> kwargs n = Some v \<Longrightarrow>
     get_field kwargs n = Inr v \<and> accessors n = []"
  by (auto simp: get_field_def arg_name_def accessors_def is_digit_def)

lemma render_pieces:
  assumes "\<forall>p\<in>set ps. plain_piece p"
    and "\<forall>n\<in>{''name'', ''price'', ''confidence''}. kwargs n \<noteq> None"
  shows "render rich kwargs (scan InText (concat (map piece_source ps))) =
           Inr (concat (map (piece_value kwargs) ps))"
  using assms(1)
proof (induction ps)
  case Nil
  show ?case by simp
next
  case (Cons p ps)
  then have ih: "render rich kwargs (scan InText (concat (map piece_source ps))) =
           Inr (concat (map (piece_value kwargs) ps))"
    by simp
  show ?case
  proof (cases p)
    case (Text s)
    with Cons.prems have "CHR ''{'' \<notin> set s" "CHR ''}'' \<notin> set s" by auto
    then show ?thesis
      using Text ih by (simp add: scan_text render_text)
  next
    case (Placeholder n)
    with Cons.prems have n: "n \<in> {''name'', ''price'', ''confidence''}" by auto
    then obtain v where v: "kwargs n = Some v"
      using assms(2) by blast
    have "scan InText (concat (map piece_source (p # ps))) =
            Field n None [] # scan InText (concat (map piece_source ps))"
      using Placeholder scan_placeholder [OF n] by simp
    then show ?thesis
      using Placeholder ih get_field_known [of n kwargs v] n v by simp
  qed
qed

lemma get_field_unknown:
  "kwargs (arg_name n) = None \<Longrightarrow> \<exists>e. get_field kwargs n = Inl e"
  by (auto simp: get_field_def Let_def)

lemma render_unknown:
  "\<exists>r\<in>set (field_args ts). kwargs r = None \<Longrightarrow> \<exists>e. render rich kwargs ts = Inl e"
proof (induction ts)
  case Nil
  then show ?case by simp
next
  case (Cons t ts)
  show ?case
  proof (cases t)
    case (Lit c)
    with Cons show ?thesis by (auto split: sum.splits)
  next
    case (Field n conv sp)
    show ?thesis
    proof (cases "kwargs (arg_name n) = None")
      case True
      then obtain e where "get_field kwargs n = Inl e"
        using get_field_unknown by blast
      with Field show ?thesis by simp
    next
      case False
      with Cons Field have "\<exists>e. render rich kwargs ts = Inl e" by auto
      with Field show ?thesis by (auto split: sum.splits)
    qed
  next
    case (Bad e)
    then show ?thesis by simp
  qed
qed

text \<open>
  C7. The reply text is a total function of the template, so formatting never throws.
  If the template references a placeholder other than \<^verbatim>\<open>name\<close>, \<^verbatim>\<open>price\<close> and
  \<^verbatim>\<open>confidence\<close>, the reply is the minimal \<^verbatim>\<open>Found <name>.\<close> with the candidate's
  name. A template made of plain text and the three placeholders comes out with each
  placeholder replaced by its value.
\<close>

theorem found_reply_text_safe:
  "(msg_found cfg = Some (PStr t)
      \<and> (\<exists>r\<in>set (template_refs t). r \<notin> {''name'', ''price'', ''confidence''}) \<longrightarrow>
      found_reply_text env cfg tm v = ''Found '' @ py_str (dict_get (name tm) PNone) @ ''.'')
   \<and> (msg_found cfg = Some (PStr (concat (map piece_source ps)))
      \<and> (\<forall>p\<in>set ps. plain_piece p) \<longrightarrow>
      found_reply_text env cfg tm v =
        concat (map (piece_value
          [''name'' \<mapsto> dict_get (name tm) (PStr ''Unknown''),
           ''price'' \<mapsto> dict_get (price tm) (PStr ''N/A''),
           ''confidence'' \<mapsto> PInt v]) ps))"
proof (intro conjI impI)
  let ?kw = "[''name'' \<mapsto> dict_get (name tm) (PStr ''Unknown''),
           ''price'' \<mapsto> dict_get (price tm) (PStr ''N/A''),
           ''confidence'' \<mapsto> PInt v]"
  assume a: "msg_found cfg = Some (PStr t)
      \<and> (\<exists>r\<in>set (template_refs t). r \<notin> {''name'', ''price'', ''confidence''})"
  then obtain r where r: "r \<in> set (template_refs t)" "r \<notin> {''name'', ''price'', ''confidence''}"
    by blast
  then have "?kw r = None" by simp
  with r(1) have "\<exists>e. render (format_rich env) ?kw (scan InText t) = Inl e"
    using render_unknown [of "scan InText t" ?kw] by (auto simp: template_refs_def)
  then show "found_reply_text env cfg tm v = ''Found '' @ py_str (dict_get (name tm) PNone) @ ''.''"
    using a by (auto simp: found_reply_text_def dict_get_def str_format_def)
next
  let ?kw = "[''name'' \<mapsto> dict_get (name tm) (PStr ''Unknown''),
           ''price'' \<mapsto> dict_get (price tm) (PStr ''N/A''),
           ''confidence'' \<mapsto> PInt v]"
  assume a: "msg_found cfg = Some (PStr (concat (map piece_source ps)))
      \<and> (\<forall>p\<in>set ps. plain_piece p)"
  have "render (format_rich env) ?kw (scan InText (concat (map piece_source ps))) =
           Inr (concat (map (piece_value ?kw) ps))"
    using a by (intro render_pieces) auto
  then show "found_reply_text env cfg tm v = concat (map (piece_value ?kw) ps)"
    using a by (simp add: found_reply_text_def dict_get_def str_format_def)
qed

theorem found_reply_text_safe_witness:
  "template_refs ''{name} ({sku})'' = [''name'', ''sku'']
   \<and> found_reply_text sample_env typo_shop sample_candidate 90 = ''Found Watch.''
   \<and> found_reply_text sample_env sample_shop sample_candidate 90 = ''Watch: 19.5''"
  using found_reply_text_safe
          [where cfg = typo_shop and t = "''{name} ({sku})''" and env = sample_env
             and tm = sample_candidate and v = 90 and ps = "[]"]
        found_reply_text_safe
          [where cfg = sample_shop and t = "[]" and env = sample_env
             and tm = sample_candidate and v = 90
             and ps = "[Placeholder ''name'', Text '': '', Placeholder ''price'']"]
  by (simp add: typo_shop_def sample_shop_def sample_candidate_def template_refs_def
      arg_name_def dict_get_def)

section \<open>The pipeline: verified properties\<close>

text \<open>Facts about the sample collaborators.\<close>

lemma sample_ids:
  "sender_id image_event = Some ''s9''" "''s9'' \<noteq> []"
  "recipient_id image_event = Some ''77''" "''77'' \<noteq> []"
  by (simp_all add: image_event_def)

lemma text_ids:
  "sender_id text_event = Some ''s9''" "''s9'' \<noteq> []"
  "recipient_id text_event = Some ''77''" "''77'' \<noteq> []"
  by (simp_all add: text_event_def)

lemma sample_attachments:
  "attachments image_event = Some [\<lparr>att_type = Some ''image'', att_url = Some ''q.jpg''\<rparr>]"
  "first_image [\<lparr>att_type = Some ''image'', att_url = Some ''q.jpg''\<rparr>] = Inr (Some ''q.jpg'')"
  by (simp_all add: image_event_def)

lemma sample_owner:
  "dict_get (owner_id sample_shop) PNone = PStr ''u1''" "truthy (PStr ''u1'')"
  "users sample_world (PStr ''u1'') = Some 5" "(1::int) \<le> 5"
  by (simp_all add: sample_shop_def sample_world_def dict_get_def)

lemma sample_env_facts:
  "get_shop_config sample_env ''77'' = Some sample_shop"
  "\<not> users_select_raises sample_env (PStr ''u1'')"
  "\<not> users_update_raises sample_env (PStr ''u1'')"
  "decrypt_stage sample_env sample_shop = Inr ''tok''"
  "\<forall>n. http_post sample_env n \<noteq> TransportFailure"
  by (simp_all add: sample_env_def sample_shop_def get_shop_config_def decrypt_stage_def
      decrypt_token_def)

lemma empty_catalog_env_facts:
  "get_shop_config empty_catalog_env ''77'' = Some sample_shop"
  "\<not> users_select_raises empty_catalog_env (PStr ''u1'')"
  "\<not> users_update_raises empty_catalog_env (PStr ''u1'')"
  "decrypt_stage empty_catalog_env sample_shop = Inr ''tok''"
  "http_get empty_catalog_env ''q.jpg'' = Inr (200, ''Q'')"
  "match_products empty_catalog_env
     (siglip_embedding (process_image (ai empty_catalog_env) ''Q''))
     (dino_embedding (process_image (ai empty_catalog_env) ''Q'')) (7 / 10) 77 = Inr []"
  "http_post empty_catalog_env (length (outbox sample_world)) \<noteq> TransportFailure"
  by (simp_all add: empty_catalog_env_def sample_env_def sample_shop_def get_shop_config_def
      decrypt_stage_def decrypt_token_def)

lemma py_int_77: "py_int ''77'' = Some 77"
  by (simp add: py_int_def py_strip_def is_space_def is_digit_def int_of_digits_def digit_val_def)

lemma ownerless_env_facts:
  "get_shop_config ownerless_env ''77'' = Some ownerless_shop"
  "\<not> truthy (dict_get (owner_id ownerless_shop) PNone)"
  "decrypt_stage ownerless_env ownerless_shop = Inr ''tok''"
  by (simp_all add: ownerless_env_def ownerless_shop_def sample_env_def sample_shop_def
      get_shop_config_def decrypt_stage_def decrypt_token_def dict_get_def)

lemma stale_key_env_facts:
  "get_shop_config stale_key_env ''77'' = Some sample_shop"
  "decrypt_stage stale_key_env sample_shop = Inl InvalidToken"
  by (simp_all add: stale_key_env_def sample_env_def sample_shop_def get_shop_config_def
      decrypt_stage_def decrypt_token_def)

lemma post_returns:
  "http_post env (length (outbox w)) \<noteq> TransportFailure \<Longrightarrow>
     post env m w = (Inr (), w\<lparr>outbox := outbox w @ [(m, http_post env (length (outbox w)))]\<rparr>)"
  by (simp add: post_def Let_def)

lemma post_raises:
  "http_post env (length (outbox w)) = TransportFailure \<Longrightarrow>
     post env m w = (Inl TransportError, w\<lparr>outbox := outbox w @ [(m, TransportFailure)]\<rparr>)"
  by (simp add: post_def Let_def)

text \<open>
  C1. When no send fails below HTTP: a score below 65 sends the shop's not-found message
  and nothing else; a score from 65 up to 84 sends the caveat sentence and then the
  found-message formatted with the score as confidence; a score of 85 or more sends the
  found-message alone; in the two match cases the candidate image follows exactly when
  \<^verbatim>\<open>send_image\<close> is true. With the default template the confidence printed is the
  score itself.
\<close>

theorem reply_stage_tiers:
  assumes "\<forall>n. http_post env n \<noteq> TransportFailure"
    and "image_url top_match = Some url"
  shows "fst (reply_stage env user_id top_match shop_config token v w) = Inr ()
    \<and> map fst (outbox (snd (reply_stage env user_id top_match shop_config token v w))) =
       map fst (outbox w) @
       (if v < 65
        then [TextMsg user_id
                (dict_get (msg_not_found shop_config)
                   (PStr ''Sorry, we could not find a match for that item.'')) token]
        else (if v < 85
              then [TextMsg user_id
                      (PStr ''We couldn't find an exact match, but this is the closest we found:'')
                      token]
              else [])
             @ [TextMsg user_id (PStr (found_reply_text env shop_config top_match v)) token]
             @ (if truthy (dict_get (send_image shop_config) (PBool False))
                then [ImageMsg user_id url token] else []))
    \<and> (msg_found shop_config = None \<longrightarrow>
         found_reply_text env shop_config top_match v =
           ''Found '' @ py_str (dict_get (name top_match) (PStr ''Unknown'')) @ '' for ''
           @ py_str (dict_get (price top_match) (PStr ''N/A'')) @ ''. Confidence: ''
           @ show_int v @ ''%'')"
proof (intro conjI impI)
  show "fst (reply_stage env user_id top_match shop_config token v w) = Inr ()"
    using assms
    by (simp add: reply_stage_def send_facebook_message_def send_facebook_image_def post_returns)
  show "map fst (outbox (snd (reply_stage env user_id top_match shop_config token v w))) =
       map fst (outbox w) @
       (if v < 65
        then [TextMsg user_id
                (dict_get (msg_not_found shop_config)
                   (PStr ''Sorry, we could not find a match for that item.'')) token]
        else (if v < 85
              then [TextMsg user_id
                      (PStr ''We couldn't find an exact match, but this is the closest we found:'')
                      token]
              else [])
             @ [TextMsg user_id (PStr (found_reply_text env shop_config top_match v)) token]
             @ (if truthy (dict_get (send_image shop_config) (PBool False))
                then [ImageMsg user_id url token] else []))"
    using assms
    by (simp add: reply_stage_def send_facebook_message_def send_facebook_image_def post_returns)
next
  assume "msg_found shop_config = None"
  then show "found_reply_text env shop_config top_match v =
           ''Found '' @ py_str (dict_get (name top_match) (PStr ''Unknown'')) @ '' for ''
           @ py_str (dict_get (price top_match) (PStr ''N/A'')) @ ''. Confidence: ''
           @ show_int v @ ''%''"
    by (simp add: found_reply_text_def dict_get_def str_format_def get_field_def arg_name_def
        accessors_def is_digit_def)
qed

theorem reply_stage_tiers_witness:
  "map fst (outbox (snd (reply_stage sample_env ''s9'' sample_candidate sample_shop ''tok'' 64
      sample_world))) = [TextMsg ''s9'' (PStr ''Nothing'') ''tok'']
   \<and> map fst (outbox (snd (reply_stage sample_env ''s9'' sample_candidate sample_shop ''tok'' 65
      sample_world))) =
       [TextMsg ''s9''
          (PStr ''We couldn't find an exact match, but this is the closest we found:'') ''tok'',
        TextMsg ''s9'' (PStr (found_reply_text sample_env sample_shop sample_candidate 65)) ''tok'',
        ImageMsg ''s9'' (PStr ''c.jpg'') ''tok'']
   \<and> map fst (outbox (snd (reply_stage sample_env ''s9'' sample_candidate sample_shop ''tok'' 85
      sample_world))) =
       [TextMsg ''s9'' (PStr (found_reply_text sample_env sample_shop sample_candidate 85)) ''tok'',
        ImageMsg ''s9'' (PStr ''c.jpg'') ''tok'']"
proof -
  have url: "image_url sample_candidate = Some (PStr ''c.jpg'')"
    by (simp add: sample_candidate_def)
  note tiers = reply_stage_tiers [OF sample_env_facts(5) url, of "''s9''" sample_shop "''tok''" _
      sample_world]
  show ?thesis
    using tiers [of 64] tiers [of 65] tiers [of 85]
    by (simp add: sample_shop_def sample_world_def dict_get_def)
qed

lemma post_frame:
  "users (snd (post env m w)) = users w \<and> credit_log (snd (post env m w)) = credit_log w
   \<and> ai_log (snd (post env m w)) = ai_log w"
  by (simp add: post_def Let_def)

lemma post_outbox:
  "outbox (snd (post env m w)) = outbox w @ [(m, http_post env (length (outbox w)))]"
  by (simp add: post_def Let_def)

lemma reply_stage_frame:
  "users (snd (reply_stage env u tm cfg tok v w)) = users w
   \<and> credit_log (snd (reply_stage env u tm cfg tok v w)) = credit_log w"
  by (auto simp: reply_stage_def send_facebook_message_def send_facebook_image_def post_def Let_def
      split: prod.splits sum.splits option.splits if_splits)

lemma verification_stage_frame:
  "users (snd (verification_stage env b tm w)) = users w
   \<and> credit_log (snd (verification_stage env b tm w)) = credit_log w
   \<and> outbox (snd (verification_stage env b tm w)) = outbox w"
  by (auto simp: verification_stage_def split: option.splits pyval.splits sum.splits prod.splits)

lemma handle_image_search_try_frame:
  "users (snd (handle_image_search_try env u url pid cfg tok w)) = users w
   \<and> credit_log (snd (handle_image_search_try env u url pid cfg tok w)) = credit_log w"
proof -
  have r: "\<And>tm v w2. users (snd (reply_stage env u tm cfg tok v w2)) = users w2"
          "\<And>tm v w2. credit_log (snd (reply_stage env u tm cfg tok v w2)) = credit_log w2"
    by (simp_all add: reply_stage_frame)
  have vs: "\<And>b tm w1 x w2. verification_stage env b tm w1 = (x, w2) \<Longrightarrow>
               users w2 = users w1 \<and> credit_log w2 = credit_log w1"
    using verification_stage_frame by (metis snd_conv)
  show ?thesis
    unfolding handle_image_search_try_def send_facebook_message_def Let_def
    by (auto simp: post_frame r dest!: vs
        split: sum.splits prod.splits option.splits list.splits)
qed

lemma handle_image_search_frame:
  "users (snd (handle_image_search env u url pid cfg tok w)) = users w
   \<and> credit_log (snd (handle_image_search env u url pid cfg tok w)) = credit_log w"
proof -
  have t: "\<And>x w'. handle_image_search_try env u url pid cfg tok w = (x, w') \<Longrightarrow>
             users w' = users w \<and> credit_log w' = credit_log w"
    using handle_image_search_try_frame by (metis snd_conv)
  show ?thesis
    unfolding handle_image_search_def send_facebook_message_def
    by (auto simp: post_frame dest!: t split: prod.splits sum.splits)
qed


text \<open>
  C10. If decrypting the shop's stored access token raises, \<open>process_incoming_message\<close>
  returns without raising, no message has been sent, no AI call has been made and the
  credit balances are what they were.
\<close>

theorem decrypt_failure_silent:
  assumes "recipient_id ev = Some r"
    and "get_shop_config env r = Some cfg"
    and "decrypt_stage env cfg = Inl e"
  shows "fst (process_incoming_message env ev w) = Inr ()
         \<and> outbox (snd (process_incoming_message env ev w)) = outbox w
         \<and> users (snd (process_incoming_message env ev w)) = users w
         \<and> ai_log (snd (process_incoming_message env ev w)) = ai_log w"
  using assms
  by (auto simp: process_incoming_message_def check_credits_def Let_def
      split: option.splits prod.splits if_splits)

theorem decrypt_failure_silent_witness:
  "decrypt_stage stale_key_env sample_shop = Inl InvalidToken
   \<and> outbox (snd (process_incoming_message stale_key_env image_event sample_world)) = []
   \<and> users (snd (process_incoming_message stale_key_env image_event sample_world))
        (PStr ''u1'') = Some 5"
  using decrypt_failure_silent
          [OF sample_ids(3) stale_key_env_facts(1) stale_key_env_facts(2), of sample_world]
  by (simp add: stale_key_env_facts sample_world_def)

text \<open>
  C9. For an image event of a shop whose configuration has no \<^verbatim>\<open>owner_id\<close> or a
  falsy one, and whose token decrypts, the run is exactly the image search started from
  the unchanged state: no query on the credits is issued and no balance changes.
\<close>

theorem unmetered_without_owner:
  assumes "sender_id ev = Some s" and "s \<noteq> []"
    and "recipient_id ev = Some r" and "r \<noteq> []"
    and "get_shop_config env r = Some cfg"
    and "\<not> truthy (dict_get (owner_id cfg) PNone)"
    and "decrypt_stage env cfg = Inr tok"
    and "attachments ev = Some atts"
    and "first_image atts = Inr (Some url)"
  shows "process_incoming_message env ev w = handle_image_search env s url r cfg tok w
         \<and> credit_log (snd (process_incoming_message env ev w)) = credit_log w
         \<and> users (snd (process_incoming_message env ev w)) = users w"
proof -
  have "process_incoming_message env ev w = handle_image_search env s url r cfg tok w"
    using assms
    by (simp add: process_incoming_message_def check_credits_def deduct_credit_def Let_def)
  then show ?thesis
    by (simp add: handle_image_search_frame)
qed

theorem unmetered_without_owner_witness:
  "owner_id ownerless_shop = None
   \<and> process_incoming_message ownerless_env image_event sample_world =
       handle_image_search ownerless_env ''s9'' ''q.jpg'' ''77'' ownerless_shop ''tok'' sample_world
   \<and> credit_log (snd (process_incoming_message ownerless_env image_event sample_world)) = []
   \<and> users (snd (process_incoming_message ownerless_env image_event sample_world))
        (PStr ''u1'') = Some 5"
proof -
  note run = unmetered_without_owner
      [OF sample_ids ownerless_env_facts sample_attachments, of sample_world]
  have "owner_id ownerless_shop = None"
    by (simp add: ownerless_shop_def)
  moreover have "credit_log (snd (process_incoming_message ownerless_env image_event
      sample_world)) = []"
    using run [THEN conjunct2, THEN conjunct1] by (simp add: sample_world_def)
  moreover have "users (snd (process_incoming_message ownerless_env image_event sample_world))
      (PStr ''u1'') = Some 5"
    using run [THEN conjunct2, THEN conjunct2] by (simp add: sample_world_def)
  ultimately show ?thesis
    using run [THEN conjunct1] by blast
qed

text \<open>
  C2, as amended. For every event of a shop with an owner whose credit lookup returns:
  if the owner has no row or a balance of 0 or less, the run ends right after the lookup,
  with no AI call and no message. If the balance is at least 1 and the event carries an
  image attachment (the token decrypting and the write succeeding), the image search
  runs from a state in which exactly one write of the balance read minus one has been
  issued, and the balance ends one lower than it was read. An event without an image
  attachment (no attachment list, or a list in which the loop finds no image) leaves every
  balance unchanged, whatever the balance is, and causes no AI call and no message.
\<close>

theorem credit_gate:
  assumes "sender_id ev = Some s" and "s \<noteq> []"
    and "recipient_id ev = Some r" and "r \<noteq> []"
    and "get_shop_config env r = Some cfg"
    and "dict_get (owner_id cfg) PNone = owner" and "truthy owner"
    and "\<not> users_select_raises env owner"
  shows "(users w owner = None \<or> (\<exists>c. users w owner = Some c \<and> c \<le> 0) \<longrightarrow>
            process_incoming_message env ev w =
              (Inr (), w\<lparr>credit_log := credit_log w @ [CreditsSelect owner]\<rparr>))
       \<and> (users w owner = Some c \<and> 1 \<le> c \<and> decrypt_stage env cfg = Inr tok
           \<and> attachments ev = Some atts \<and> first_image atts = Inr (Some url)
           \<and> \<not> users_update_raises env owner \<longrightarrow>
             process_incoming_message env ev w =
               handle_image_search env s url r cfg tok
                 (w\<lparr>credit_log := credit_log w @ [CreditsSelect owner, CreditsUpdate owner (c - 1)],
                    users := (users w)(owner \<mapsto> c - 1)\<rparr>)
             \<and> users (snd (process_incoming_message env ev w)) owner = Some (c - 1))
       \<and> (attachments ev = None
           \<or> (\<exists>l. attachments ev = Some l \<and> (\<forall>u. first_image l \<noteq> Inr (Some u))) \<longrightarrow>
             users (snd (process_incoming_message env ev w)) = users w
             \<and> credit_log (snd (process_incoming_message env ev w))
                 = credit_log w @ [CreditsSelect owner]
             \<and> ai_log (snd (process_incoming_message env ev w)) = ai_log w
             \<and> outbox (snd (process_incoming_message env ev w)) = outbox w)"
proof (intro conjI impI)
  assume "users w owner = None \<or> (\<exists>c. users w owner = Some c \<and> c \<le> 0)"
  then show "process_incoming_message env ev w =
              (Inr (), w\<lparr>credit_log := credit_log w @ [CreditsSelect owner]\<rparr>)"
    using assms
    by (auto simp: process_incoming_message_def check_credits_def Let_def)
next
  assume h: "users w owner = Some c \<and> 1 \<le> c \<and> decrypt_stage env cfg = Inr tok
             \<and> attachments ev = Some atts \<and> first_image atts = Inr (Some url)
             \<and> \<not> users_update_raises env owner"
  show eq: "process_incoming_message env ev w =
               handle_image_search env s url r cfg tok
                 (w\<lparr>credit_log := credit_log w @ [CreditsSelect owner, CreditsUpdate owner (c - 1)],
                    users := (users w)(owner \<mapsto> c - 1)\<rparr>)"
    using assms h
    by (simp add: process_incoming_message_def check_credits_def deduct_credit_def Let_def)
  show "users (snd (process_incoming_message env ev w)) owner = Some (c - 1)"
    by (simp add: eq handle_image_search_frame)
next
  assume n: "attachments ev = None
           \<or> (\<exists>l. attachments ev = Some l \<and> (\<forall>u. first_image l \<noteq> Inr (Some u)))"
  have "snd (process_incoming_message env ev w)
          = w\<lparr>credit_log := credit_log w @ [CreditsSelect owner]\<rparr>"
    using assms n
    by (auto simp: process_incoming_message_def check_credits_def Let_def
        split: option.splits sum.splits)
  then show "users (snd (process_incoming_message env ev w)) = users w"
    and "credit_log (snd (process_incoming_message env ev w))
           = credit_log w @ [CreditsSelect owner]"
    and "ai_log (snd (process_incoming_message env ev w)) = ai_log w"
    and "outbox (snd (process_incoming_message env ev w)) = outbox w"
    by simp_all
qed

theorem credit_gate_witness:
  "users sample_world (PStr ''u1'') = Some 5
   \<and> users (snd (process_incoming_message sample_env image_event sample_world))
        (PStr ''u1'') = Some 4
   \<and> attachments text_event = None
   \<and> users (snd (process_incoming_message sample_env text_event sample_world))
        (PStr ''u1'') = Some 5"
proof -
  have h: "users sample_world (PStr ''u1'') = Some 5 \<and> (1::int) \<le> 5
           \<and> decrypt_stage sample_env sample_shop = Inr ''tok''
           \<and> attachments image_event
               = Some [\<lparr>att_type = Some ''image'', att_url = Some ''q.jpg''\<rparr>]
           \<and> first_image [\<lparr>att_type = Some ''image'', att_url = Some ''q.jpg''\<rparr>]
               = Inr (Some ''q.jpg'')
           \<and> \<not> users_update_raises sample_env (PStr ''u1'')"
    by (simp add: sample_owner sample_env_facts sample_attachments)
  note gate = credit_gate
      [OF sample_ids sample_env_facts(1) sample_owner(1) sample_owner(2) sample_env_facts(2),
        THEN conjunct2, THEN conjunct1, THEN mp, OF h, THEN conjunct2]
  have t: "attachments text_event = None
           \<or> (\<exists>l. attachments text_event = Some l \<and> (\<forall>u. first_image l \<noteq> Inr (Some u)))"
    by (simp add: text_event_def)
  note kept = credit_gate
      [OF text_ids sample_env_facts(1) sample_owner(1) sample_owner(2) sample_env_facts(2),
        THEN conjunct2, THEN conjunct2, THEN mp, OF t, THEN conjunct1]
  show ?thesis
    using gate kept by (simp add: sample_owner text_event_def)
qed

text \<open>
  C2 as stated does not hold for every event. The owner's balance is 5 and the customer
  sends a text message. The event passes the gate, there is no attachment to dispatch,
  and the run ends: the only effect is the credit lookup, nothing is written and the
  balance is still 5.
\<close>

theorem balance_kept_on_text_event:
  "users sample_world (PStr ''u1'') = Some 5
   \<and> process_incoming_message sample_env text_event sample_world
       = (Inr (), sample_world\<lparr>credit_log := [CreditsSelect (PStr ''u1'')]\<rparr>)
   \<and> users (snd (process_incoming_message sample_env text_event sample_world)) (PStr ''u1'')
       = Some 5"
  by (simp add: sample_env_def sample_shop_def sample_world_def text_event_def
      process_incoming_message_def get_shop_config_def check_credits_def decrypt_stage_def
      decrypt_token_def dict_get_def Let_def)

text \<open>
  C6. For a processed image event whose retrieval returns the empty list, the only reply
  is the shop's not-found message, the only AI call is the extraction (no verification),
  and the owner's balance is one lower.
\<close>

theorem no_candidate_reply:
  assumes "sender_id ev = Some s" and "s \<noteq> []"
    and "recipient_id ev = Some r" and "r \<noteq> []"
    and "get_shop_config env r = Some cfg"
    and "dict_get (owner_id cfg) PNone = owner" and "truthy owner"
    and "\<not> users_select_raises env owner"
    and "users w owner = Some c" and "1 \<le> c"
    and "decrypt_stage env cfg = Inr tok"
    and "attachments ev = Some atts" and "first_image atts = Inr (Some url)"
    and "\<not> users_update_raises env owner"
    and "http_get env url = Inr (200, image_bytes)"
    and "py_int r = Some pid"
    and "match_products env (siglip_embedding (process_image (ai env) image_bytes))
           (dino_embedding (process_image (ai env) image_bytes)) (7 / 10) pid = Inr []"
    and "http_post env (length (outbox w)) \<noteq> TransportFailure"
  shows "fst (process_incoming_message env ev w) = Inr ()
       \<and> map fst (outbox (snd (process_incoming_message env ev w))) =
           map fst (outbox w) @
           [TextMsg s (dict_get (msg_not_found cfg) (PStr ''No match found.'')) tok]
       \<and> ai_log (snd (process_incoming_message env ev w)) = ai_log w @ [Extract image_bytes]
       \<and> users (snd (process_incoming_message env ev w)) owner = Some (c - 1)"
  using assms
  by (simp add: process_incoming_message_def check_credits_def deduct_credit_def Let_def
      handle_image_search_def handle_image_search_try_def send_facebook_message_def post_returns)


theorem no_candidate_reply_witness:
  "match_products empty_catalog_env [1, 0] [1, 0] (7 / 10) 77 = Inr []
   \<and> map fst (outbox (snd (process_incoming_message empty_catalog_env image_event sample_world)))
       = [TextMsg ''s9'' (PStr ''Nothing'') ''tok'']
   \<and> ai_log (snd (process_incoming_message empty_catalog_env image_event sample_world))
       = [Extract ''Q'']
   \<and> users (snd (process_incoming_message empty_catalog_env image_event sample_world))
        (PStr ''u1'') = Some 4"
  using no_candidate_reply
          [OF sample_ids empty_catalog_env_facts(1) sample_owner(1) sample_owner(2)
              empty_catalog_env_facts(2) sample_owner(3) sample_owner(4)
              empty_catalog_env_facts(4) sample_attachments empty_catalog_env_facts(3)
              empty_catalog_env_facts(5) py_int_77 empty_catalog_env_facts(6)
              empty_catalog_env_facts(7)]
  by (simp add: empty_catalog_env_def sample_shop_def sample_world_def dict_get_def)

text \<open>
  When no POST fails below HTTP, the body of \<open>handle_image_search\<close> raises only before
  its first reply, and returns only after one.
\<close>

lemma verification_stage_url:
  "verification_stage env b tm w = (Inr v, w2) \<Longrightarrow> \<exists>url. image_url tm = Some url"
  by (auto simp: verification_stage_def split: option.splits)

lemma reply_stage_returns:
  assumes "\<forall>n. http_post env n \<noteq> TransportFailure" and "image_url tm = Some url"
  shows "fst (reply_stage env u tm cfg tok v w) = Inr ()
         \<and> length (outbox w) < length (outbox (snd (reply_stage env u tm cfg tok v w)))"
  using assms
  by (simp add: reply_stage_def send_facebook_message_def send_facebook_image_def post_returns)

lemma verify_then_reply:
  assumes "\<forall>n. http_post env n \<noteq> TransportFailure"
    and "verification_stage env b tm w0 = (Inr v, w2)"
    and "reply_stage env u tm cfg tok v w2 = (res, w3)"
  shows "res = Inr () \<and> length (outbox w0) < length (outbox w3)"
proof -
  obtain cu where "image_url tm = Some cu"
    using verification_stage_url [OF assms(2)] by blast
  then have "fst (reply_stage env u tm cfg tok v w2) = Inr ()
             \<and> length (outbox w2) < length (outbox (snd (reply_stage env u tm cfg tok v w2)))"
    using reply_stage_returns [OF assms(1)] by blast
  moreover have "outbox w2 = outbox w0"
    using verification_stage_frame [of env b tm w0] assms(2) by simp
  ultimately show ?thesis
    using assms(3) by simp
qed

lemma verify_raises_outbox:
  "verification_stage env b tm w0 = (x, w2) \<Longrightarrow> outbox w2 = outbox w0"
  using verification_stage_frame [of env b tm w0] by simp

lemma try_raises_before_reply:
  assumes "\<forall>n. http_post env n \<noteq> TransportFailure"
    and "handle_image_search_try env u url pid cfg tok w = (Inl e, w1)"
  shows "outbox w1 = outbox w"
  using assms(2) assms(1)
  unfolding handle_image_search_try_def send_facebook_message_def Let_def
  by (auto simp: post_returns dest: verify_then_reply verify_raises_outbox
      split: sum.splits prod.splits option.splits list.splits if_splits)

lemma try_returns_replied:
  assumes "\<forall>n. http_post env n \<noteq> TransportFailure"
    and "handle_image_search_try env u url pid cfg tok w = (Inr x, w1)"
  shows "length (outbox w) < length (outbox w1)"
  using assms(2) assms(1)
  unfolding handle_image_search_try_def send_facebook_message_def Let_def
  by (auto simp: post_returns dest: verify_then_reply
      split: sum.splits prod.splits option.splits list.splits if_splits)

text \<open>
  C8. The claim holds on the path the send functions handle and fails on the one they
  miss. The verification says 90 and the found-message is delivered. When the POST of
  the product image is answered with an error status, \<open>send_facebook_image\<close> logs it and
  nothing more is sent. When the same POST times out, the exception is not an
  \<^verbatim>\<open>HTTPStatusError\<close>: it leaves \<open>send_facebook_image\<close>, reaches the handler of
  \<open>handle_image_search\<close>, and the user, who already has the found-message, receives the
  generic error message as a second message.
\<close>

theorem error_reply_after_replies:
  "outbox (snd (process_incoming_message rejected_env image_event sample_world)) =
     [(TextMsg ''s9'' (PStr ''Watch: 19.5'') ''tok'', Delivered),
      (ImageMsg ''s9'' (PStr ''c.jpg'') ''tok'', StatusError)]
   \<and> outbox (snd (process_incoming_message timeout_env image_event sample_world)) =
     [(TextMsg ''s9'' (PStr ''Watch: 19.5'') ''tok'', Delivered),
      (ImageMsg ''s9'' (PStr ''c.jpg'') ''tok'', TransportFailure),
      (TextMsg ''s9'' (PStr ''An error occurred while processing your image.'') ''tok'',
       Delivered)]"
  by (simp add: timeout_env_def rejected_env_def sample_env_def sample_ai_def sample_shop_def
      sample_candidate_def sample_world_def image_event_def
      process_incoming_message_def get_shop_config_def check_credits_def
      deduct_credit_def decrypt_stage_def decrypt_token_def handle_image_search_def
      handle_image_search_try_def verification_stage_def reply_stage_def found_reply_text_def
      send_facebook_message_def send_facebook_image_def post_def dict_get_def Let_def
      process_image_def process_image_try_def verify_visual_match_def verify_visual_match_try_def
      py_int_def py_strip_def is_space_def is_digit_def int_of_digits_def digit_val_def
      str_format_def get_field_def arg_name_def accessors_def)

end
